theory Spec2Isabelle
  imports Main "HOL-Library.AList"
begin

section \<open>Python values, dictionaries and exceptions\<close>

text \<open>
  The worker module \<^verbatim>\<open>multiscanner/distributed/celery_worker.py\<close> handles JSON-like
  Python values. A dictionary is an association list: \<open>d[k] = v\<close> is \<open>AList.update\<close>
  (the value is replaced in place when the key is there, appended otherwise, which is
  Python's insertion order), \<open>del d[k]\<close> is \<open>AList.delete\<close>, and a lookup of a missing key
  raises \<open>KeyError\<close>.
\<close>

datatype pyval =
    PNone
  | PBool bool
  | PInt int
  | PStr string
  | PList "pyval list"
  | PDict "(string \<times> pyval) list"

type_synonym pydict = "(string \<times> pyval) list"

datatype error =
    KeyError string
  | TypeError string
  | ValueError string
  | NameError string
  | UnboundLocalError string
  | ExternalError string

text \<open>Python's truth value of an object, as \<open>if x:\<close> and \<open>not x\<close> test it.\<close>

fun truthy :: "pyval \<Rightarrow> bool" where
  "truthy PNone = False"
| "truthy (PBool b) = b"
| "truthy (PInt i) = (i \<noteq> 0)"
| "truthy (PStr s) = (s \<noteq> [])"
| "truthy (PList xs) = (xs \<noteq> [])"
| "truthy (PDict d) = (d \<noteq> [])"

text \<open>\<open>d[k]\<close>, \<open>del d[k]\<close> and \<open>d.get(k, default)\<close>.\<close>

definition getitem :: "(string \<times> 'a) list \<Rightarrow> string \<Rightarrow> error + 'a" where
  "getitem d k = (case map_of d k of None \<Rightarrow> Inl (KeyError k) | Some v \<Rightarrow> Inr v)"

definition delitem :: "(string \<times> 'a) list \<Rightarrow> string \<Rightarrow> error + (string \<times> 'a) list" where
  "delitem d k = (case map_of d k of None \<Rightarrow> Inl (KeyError k) | Some v \<Rightarrow> Inr (AList.delete k d))"

definition dict_get :: "pydict \<Rightarrow> string \<Rightarrow> pyval \<Rightarrow> pyval" where
  "dict_get d k dflt = (case map_of d k of None \<Rightarrow> dflt | Some v \<Rightarrow> v)"

text \<open>\<open>str(i)\<close> of an integer, as \<open>'{}'.format(i)\<close> renders it.\<close>

definition digit_char :: "nat \<Rightarrow> char" where
  "digit_char d = ''0123456789'' ! (d mod 10)"

fun digits :: "nat \<Rightarrow> string" where
  "digits n = (if n < 10 then [digit_char n] else digits (n div 10) @ [digit_char (n mod 10)])"

declare digits.simps [simp del]

definition str_int :: "int \<Rightarrow> string" where
  "str_int i = (if i < 0 then CHR ''-'' # digits (nat (- i)) else digits (nat i))"

section \<open>The scan task: data\<close>

text \<open>
  The caller's \<open>metadata\<close> dictionary is an object that the task receives by reference
  and writes into, so it lives in a store of dictionary objects and is named by its
  address. Everything the task creates itself (the results of the engine, \<open>sub_conf\<close>) is
  held by nobody else while the task runs and is a plain value. An entry of a report is
  either such a value or a reference into the store.
\<close>

type_synonym addr = nat

datatype slot = Val pyval | Ref addr

type_synonym report = "(string \<times> slot) list"
type_synonym results = "(string \<times> report) list"
type_synonym config = "(string \<times> pydict) list"
type_synonym heap = "addr \<Rightarrow> pydict"

text \<open>
  The positional arguments of \<open>multiscanner_celery\<close>, in the order of its signature:
  \<open>args[1]\<close> is \<open>original_filename\<close> and \<open>args[2]\<close> is \<open>task_id\<close>. The parameter
  \<^verbatim>\<open>file_\<close> is \<open>file_ref\<close> here (a name cannot end with an underscore).
\<close>

record job =
  file_ref :: string
  original_filename :: string
  task_id :: pyval
  file_hash :: string
  metadata :: addr
  config :: "config option"
  module_list :: "string list option"

text \<open>
  Modelled from the spec: the status store. \<open>multiscanner.storage.sql_driver\<close> is not
  among the sources; \<open>update_task(task_id, task_status, timestamp)\<close> is the spec's
  \<open>updateJob(id, status, timestamp)\<close>. The store is kept as the trace of the calls made
  on it, and the status of a job is what the last call for its id wrote.
\<close>

record db_update =
  upd_task_id :: pyval
  task_status :: string
  timestamp :: pyval

definition final_status :: "db_update list \<Rightarrow> pyval \<Rightarrow> string option" where
  "final_status us tid =
     (case filter (\<lambda>u. upd_task_id u = tid) us of
        [] \<Rightarrow> None
      | x # xs \<Rightarrow> Some (task_status (last (x # xs))))"

text \<open>
  What the task reads from outside: the host name, the wall clock (the \<open>n\<close>-th call of
  \<open>datetime.now().isoformat()\<close> returns \<open>clock n\<close>), the global \<open>msconf.MS_CONFIG\<close>, the
  scan engine (\<open>multiscan\<close> followed by \<open>parse_reports\<close>: a mapping from file reference
  to report, or an exception) and \<open>StorageHandler.store\<close> (the ids of the backends
  written, or an exception). None of the three is among the sources.
\<close>

record env =
  hostname :: string
  clock :: "nat \<Rightarrow> string"
  MS_CONFIG :: config
  multiscan :: "string list \<Rightarrow> config \<Rightarrow> string list option \<Rightarrow> error + results"
  store :: "results \<Rightarrow> heap \<Rightarrow> error + string list"

record world =
  heap :: heap
  db :: "db_update list"
  ticks :: nat

definition now :: "env \<Rightarrow> world \<Rightarrow> string \<times> world" where
  "now e w = (clock e (ticks w), w\<lparr>ticks := ticks w + 1\<rparr>)"

section \<open>The scan task: \<open>multiscanner_celery\<close>\<close>

text \<open>
  Lines 171-188. With a non-empty \<open>module_list\<close> the count is its length and \<open>sub_conf\<close>
  stays empty; otherwise the loop over the keys of \<open>config\<close> skips \<open>main\<close>, copies the
  \<open>ENABLED\<close> entry of every other section and counts those that are \<open>True\<close>.
\<close>

fun count_enabled :: "config \<Rightarrow> string list \<Rightarrow> pydict \<Rightarrow> int \<Rightarrow> error + (pydict \<times> int)" where
  "count_enabled cfg [] sub_conf total_enabled = Inr (sub_conf, total_enabled)"
| "count_enabled cfg (key # keys) sub_conf total_enabled =
     (if key = ''main'' then count_enabled cfg keys sub_conf total_enabled
      else
        (case getitem cfg key of
           Inl e \<Rightarrow> Inl e
         | Inr sect \<Rightarrow>
             (case getitem sect ''ENABLED'' of
                Inl e \<Rightarrow> Inl e
              | Inr v \<Rightarrow>
                  count_enabled cfg keys
                    (AList.update key (PDict [(''ENABLED'', v)]) sub_conf)
                    (if v = PBool True then total_enabled + 1 else total_enabled))))"

definition scan_config :: "config \<Rightarrow> string list option \<Rightarrow> error + (pydict \<times> int)" where
  "scan_config cfg ml =
     (case ml of
        Some (m # ms) \<Rightarrow> Inr ([], int (length (m # ms)))
      | _ \<Rightarrow> count_enabled cfg (map fst cfg) [] 0)"

definition modules_enabled :: "int \<Rightarrow> int \<Rightarrow> string" where
  "modules_enabled total_enabled total_modules =
     str_int total_enabled @ '' / '' @ str_int total_modules"

text \<open>
  The statement \<open>results[file_]['Scan Metadata'][k] = v\<close> of lines 191-197: two lookups,
  then a write into the dictionary they reach. When that dictionary is the caller's
  object the write goes to the store.
\<close>

definition set_scan_metadata ::
  "string \<Rightarrow> string \<Rightarrow> pyval \<Rightarrow> results \<times> heap \<Rightarrow> error + results \<times> heap" where
  "set_scan_metadata f k v rh =
     (case getitem (fst rh) f of
        Inl e \<Rightarrow> Inl e
      | Inr rep \<Rightarrow>
          (case getitem rep ''Scan Metadata'' of
             Inl e \<Rightarrow> Inl e
           | Inr (Ref a) \<Rightarrow> Inr (fst rh, (snd rh)(a := AList.update k v (snd rh a)))
           | Inr (Val (PDict d)) \<Rightarrow>
               Inr (AList.update f
                      (AList.update ''Scan Metadata'' (Val (PDict (AList.update k v d))) rep)
                      (fst rh), snd rh)
           | Inr (Val _) \<Rightarrow> Inl (TypeError ''object does not support item assignment'')))"

fun set_all ::
  "string \<Rightarrow> (string \<times> pyval) list \<Rightarrow> results \<times> heap \<Rightarrow> error + results \<times> heap" where
  "set_all f [] rh = Inr rh"
| "set_all f ((k, v) # kvs) rh =
     (case set_scan_metadata f k v rh of
        Inl e \<Rightarrow> Inl e
      | Inr rh' \<Rightarrow> set_all f kvs rh')"

text \<open>Lines 190-197: the caller's dictionary is installed, then written five times.\<close>

definition fill_metadata ::
  "env \<Rightarrow> job \<Rightarrow> string \<Rightarrow> pydict \<Rightarrow> int \<Rightarrow> int \<Rightarrow> results \<times> heap \<Rightarrow> error + results \<times> heap" where
  "fill_metadata e j scan_time sub_conf total_enabled total_modules rh =
     (case getitem (fst rh) (file_ref j) of
        Inl err \<Rightarrow> Inl err
      | Inr rep \<Rightarrow>
          set_all (file_ref j)
            [(''Worker Node'', PStr (hostname e)),
             (''Scan Config'', PDict sub_conf),
             (''Modules Enabled'', PStr (modules_enabled total_enabled total_modules)),
             (''Scan Time'', PStr scan_time),
             (''Task ID'', task_id j)]
            (AList.update (file_ref j)
               (AList.update ''Scan Metadata'' (Ref (metadata j)) rep) (fst rh), snd rh))"

text \<open>The caller's dictionary \<open>d\<close> after the five writes of lines 191-197.\<close>

definition written ::
  "env \<Rightarrow> job \<Rightarrow> string \<Rightarrow> pydict \<Rightarrow> int \<Rightarrow> int \<Rightarrow> pydict \<Rightarrow> pydict" where
  "written e j scan_time sub_conf total_enabled total_modules d =
     AList.update ''Task ID'' (task_id j)
       (AList.update ''Scan Time'' (PStr scan_time)
          (AList.update ''Modules Enabled'' (PStr (modules_enabled total_enabled total_modules))
             (AList.update ''Scan Config'' (PDict sub_conf)
                (AList.update ''Worker Node'' (PStr (hostname e)) d))))"

text \<open>Lines 202-203: \<open>results[original_filename] = results[file_]\<close>, \<open>del results[file_]\<close>.\<close>

definition rekey :: "string \<Rightarrow> string \<Rightarrow> results \<Rightarrow> error + results" where
  "rekey f orig res =
     (case getitem res f of
        Inl e \<Rightarrow> Inl e
      | Inr rep \<Rightarrow> delitem (AList.update orig rep res) f)"

text \<open>
  Lines 155-203, up to the envelope that is handed to the storage. The exception of a
  statement ends the task; what was written before stays written. The log record of
  line 152, the construction of the storage handler (lines 157-158) and its \<open>close\<close>
  (line 207) are calls into code that is not among the sources; they are taken to
  return and leave no trace here.
\<close>

definition effective_config :: "env \<Rightarrow> job \<Rightarrow> config" where
  "effective_config e j = (case config j of None \<Rightarrow> MS_CONFIG e | Some c \<Rightarrow> c)"

definition assemble :: "env \<Rightarrow> job \<Rightarrow> world \<Rightarrow> (error + results) \<times> world" where
  "assemble e j w =
     (let cfg = effective_config e j in
      case multiscan e [file_ref j] cfg (module_list j) of
        Inl err \<Rightarrow> (Inl err, w)
      | Inr res \<Rightarrow>
          (let (scan_time, w1) = now e w;
               total_modules = int (length cfg) - 1
           in case scan_config cfg (module_list j) of
                Inl err \<Rightarrow> (Inl err, w1)
              | Inr (sub_conf, total_enabled) \<Rightarrow>
                  (case fill_metadata e j scan_time sub_conf total_enabled total_modules
                          (res, heap w1) of
                     Inl err \<Rightarrow> (Inl err, w1)
                   | Inr (res1, h1) \<Rightarrow>
                       (case rekey (file_ref j) (original_filename j) res1 of
                          Inl err \<Rightarrow> (Inl err, w1\<lparr>heap := h1\<rparr>)
                        | Inr res2 \<Rightarrow> (Inr res2, w1\<lparr>heap := h1\<rparr>)))))"

text \<open>Lines 206-215: store the envelope; no backend id is a \<open>ValueError\<close>.\<close>

definition multiscanner_celery :: "env \<Rightarrow> job \<Rightarrow> world \<Rightarrow> (error + results) \<times> world" where
  "multiscanner_celery e j w =
     (case assemble e j w of
        (Inl err, w1) \<Rightarrow> (Inl err, w1)
      | (Inr res, w1) \<Rightarrow>
          (case store e res (heap w1) of
             Inl err \<Rightarrow> (Inl err, w1)
           | Inr storage_ids \<Rightarrow>
               if storage_ids = [] then (Inl (ValueError ''Report failed to index''), w1)
               else (Inr res, w1)))"

section \<open>The callbacks of \<open>MultiScannerTask\<close>\<close>

text \<open>\<open>on_failure\<close> (lines 109-124) reads the clock and writes \<open>Failed\<close>.\<close>

definition on_failure :: "env \<Rightarrow> error \<Rightarrow> job \<Rightarrow> world \<Rightarrow> world" where
  "on_failure e exc j w =
     (let (scan_time, w1) = now e w
      in w1\<lparr>db := db w1 @
              [\<lparr>upd_task_id = task_id j, task_status = ''Failed'',
                timestamp = PStr scan_time\<rparr>]\<rparr>)"

text \<open>
  \<open>on_success\<close> (lines 126-138) evaluates \<open>retval[args[1]]['Scan Metadata']['Scan Time']\<close>
  first; only when the three lookups succeed is \<open>update_task\<close> called.
\<close>

definition subscript_slot :: "heap \<Rightarrow> slot \<Rightarrow> string \<Rightarrow> error + pyval" where
  "subscript_slot h s k =
     (case s of
        Ref a \<Rightarrow> getitem (h a) k
      | Val (PDict d) \<Rightarrow> getitem d k
      | Val _ \<Rightarrow> Inl (TypeError ''object is not subscriptable by a string''))"

definition on_success :: "results \<Rightarrow> job \<Rightarrow> world \<Rightarrow> (error + unit) \<times> world" where
  "on_success retval j w =
     (case getitem retval (original_filename j) of
        Inl e \<Rightarrow> (Inl e, w)
      | Inr rep \<Rightarrow>
          (case getitem rep ''Scan Metadata'' of
             Inl e \<Rightarrow> (Inl e, w)
           | Inr sm \<Rightarrow>
               (case subscript_slot (heap w) sm ''Scan Time'' of
                  Inl e \<Rightarrow> (Inl e, w)
                | Inr ts \<Rightarrow>
                    (Inr (), w\<lparr>db := db w @
                       [\<lparr>upd_task_id = task_id j, task_status = ''Complete'',
                         timestamp = ts\<rparr>]\<rparr>))))"

text \<open>
  One run of the task by a Celery worker: \<open>on_failure\<close> is run when the body raises,
  \<open>on_success\<close> when it returns. An exception of the success callback is handled by the
  worker as a failure of the run: \<open>on_failure\<close> is then run with that exception.
\<close>

datatype outcome = Success results | Failure error | CallbackError error

definition run_task :: "env \<Rightarrow> job \<Rightarrow> world \<Rightarrow> outcome \<times> world" where
  "run_task e j w =
     (case multiscanner_celery e j w of
        (Inl exc, w1) \<Rightarrow> (Failure exc, on_failure e exc j w1)
      | (Inr retval, w1) \<Rightarrow>
          (case on_success retval j w1 of
             (Inl exc, w2) \<Rightarrow> (CallbackError exc, on_failure e exc j w2)
           | (Inr u, w2) \<Rightarrow> (Success retval, w2)))"

section \<open>The periodic tasks\<close>

text \<open>
  The module-level \<open>es_storage_config\<close> is the \<open>ElasticSearchStorage\<close> section of the
  storage configuration (empty when the section is missing). \<open>StorageHandler\<close> and
  \<open>delete_index\<close> are not among the sources: the first gives its \<open>loaded_storage\<close> or
  raises, the second returns a value or raises. The effects of the rollover task are
  the log records, the calls of \<open>delete_index\<close> and the calls of \<open>close\<close>.
\<close>

datatype handler = ElasticSearchStorage nat | OtherStorage nat

datatype level = Debug | Info | Warning

datatype message = Text string | Exc error | Format string "pyval list"

record penv =
  es_storage_config :: pydict
  ms_config_value :: pyval
  open_storage :: "error + handler list"
  delete_index :: "nat \<Rightarrow> string \<Rightarrow> pyval \<Rightarrow> error + pyval"

record rstate =
  logged :: "(level \<times> message) list"
  deleted :: "(nat \<times> string \<times> pyval) list"
  closed :: nat

text \<open>Lines 251-258: the loop over the loaded storages.\<close>

fun cleanup :: "penv \<Rightarrow> pyval \<Rightarrow> handler list \<Rightarrow> rstate \<Rightarrow> (error + unit) \<times> rstate" where
  "cleanup e days [] s = (Inr (), s)"
| "cleanup e days (OtherStorage n # hs) s = cleanup e days hs s"
| "cleanup e days (ElasticSearchStorage n # hs) s =
     (let s1 = s\<lparr>deleted := deleted s @ [(n, ''metricbeat'', days)]\<rparr>
      in case delete_index e n ''metricbeat'' days of
           Inl err \<Rightarrow> (Inl err, s1)
         | Inr ret \<Rightarrow>
             cleanup e days hs
               (s1\<lparr>logged := logged s1 @
                  [if ret = PBool False then (Warning, Text ''Metricbeat Roller failed'')
                   else (Info, Format ''Metricbeat indices older than {} days deleted'' [days])]\<rparr>))"

text \<open>Lines 237-258: the body of the \<open>try\<close> block.\<close>

definition rollover_try :: "penv \<Rightarrow> pyval \<Rightarrow> rstate \<Rightarrow> (error + unit) \<times> rstate" where
  "rollover_try e days s =
     (case open_storage e of
        Inl err \<Rightarrow> (Inl err, s)
      | Inr loaded_storage \<Rightarrow>
          (let metricbeat_enabled = dict_get (es_storage_config e) ''metricbeat_enabled'' (PBool True)
           in if \<not> truthy metricbeat_enabled
              then (Inr (), s\<lparr>logged := logged s @
                      [(Debug, Text ''Metricbeat logging not enbaled, exiting...'')]\<rparr>)
              else
                (let days1 = (if \<not> truthy days
                              then dict_get (es_storage_config e) ''metricbeat_rollover_days'' (PInt 7)
                              else days)
                 in if \<not> truthy days1
                    then (Inl (NameError ''name 'days' is not defined, check storage.ini for 'metricbeat_rollover_days' setting''), s)
                    else cleanup e days1 loaded_storage s)))"

text \<open>
  Lines 236-262: \<open>except Exception\<close> logs whatever the block raised; \<open>finally\<close> closes
  the storage handler, which is an unbound local when its constructor raised.
\<close>

definition metricbeat_rollover_celery :: "penv \<Rightarrow> pyval \<Rightarrow> rstate \<Rightarrow> (error + unit) \<times> rstate" where
  "metricbeat_rollover_celery e days s =
     (let (r, s1) = rollover_try e days s;
          s2 = (case r of
                  Inl err \<Rightarrow> s1\<lparr>logged := logged s1 @ [(Warning, Exc err)]\<rparr>
                | Inr u \<Rightarrow> s1)
      in case open_storage e of
           Inl err \<Rightarrow> (Inl (UnboundLocalError ''storage_handler''), s2)
         | Inr loaded_storage \<Rightarrow> (Inr (), s2\<lparr>closed := closed s2 + 1\<rparr>))"

text \<open>
  A call of \<open>def metricbeat_rollover_celery(days)\<close> with positional and keyword
  arguments binds the single parameter or raises \<open>TypeError\<close> before the body starts.
\<close>

definition bind_days :: "pyval list \<Rightarrow> (string \<times> pyval) list \<Rightarrow> error + pyval" where
  "bind_days positional keywords =
     (case filter (\<lambda>kv. fst kv \<noteq> ''days'') keywords of
        kv # rest \<Rightarrow> Inl (TypeError (''got an unexpected keyword argument '' @ fst kv))
      | [] \<Rightarrow>
          (case positional of
             [] \<Rightarrow>
               (case map_of keywords ''days'' of
                  None \<Rightarrow> Inl (TypeError ''missing 1 required positional argument: days'')
                | Some d \<Rightarrow> Inr d)
           | [d] \<Rightarrow>
               (case map_of keywords ''days'' of
                  None \<Rightarrow> Inr d
                | Some d' \<Rightarrow> Inl (TypeError ''got multiple values for argument days''))
           | d # d' # ds \<Rightarrow> Inl (TypeError ''takes 1 positional argument but more were given'')))"

definition call_metricbeat_rollover ::
  "penv \<Rightarrow> pyval list \<Rightarrow> (string \<times> pyval) list \<Rightarrow> rstate \<Rightarrow> (error + unit) \<times> rstate" where
  "call_metricbeat_rollover e positional keywords s =
     (case bind_days positional keywords of
        Inl err \<Rightarrow> (Inl err, s)
      | Inr days \<Rightarrow> metricbeat_rollover_celery e days s)"

text \<open>
  \<open>setup_periodic_tasks\<close> (lines 64-92): the entries it adds to the schedule. Both
  signatures are made with \<open>.s()\<close>, without arguments, so an entry carries exactly the
  \<open>args\<close> and \<open>kwargs\<close> given to \<open>add_periodic_task\<close>. An entry is fired by calling its
  task with its \<open>args\<close> and \<open>kwargs\<close>.
\<close>

datatype task_name = SsdeepCompare | MetricbeatRollover

record entry =
  crontab_hour :: nat
  crontab_minute :: nat
  task :: task_name
  args :: "pyval list"
  kwargs :: "(string \<times> pyval) list"
  options :: pydict

definition low_tasks :: pydict where
  "low_tasks = [(''queue'', PStr ''low_tasks''), (''routing_key'', PStr ''tasks.low''),
                (''priority'', PInt 1)]"

definition setup_periodic_tasks :: "penv \<Rightarrow> entry list" where
  "setup_periodic_tasks e =
     \<lparr>crontab_hour = 2, crontab_minute = 0, task = SsdeepCompare,
      args = [], kwargs = [], options = low_tasks\<rparr> #
     (let metricbeat_enabled = dict_get (es_storage_config e) ''metricbeat_enabled'' (PBool True)
      in if truthy metricbeat_enabled
         then [\<lparr>crontab_hour = 3, crontab_minute = 0, task = MetricbeatRollover,
                 args = [dict_get (es_storage_config e) ''metricbeat_rollover_days'' PNone, PInt 7],
                 kwargs = [(''config'', ms_config_value e)], options = low_tasks\<rparr>]
         else [])"

section \<open>Auxiliary definitions for the statements\<close>

text \<open>
  The mapping that lines 190-203 make of the engine's results \<open>res\<close>, whose entry for
  the scanned file is \<open>rep\<close>: the caller's dictionary installed, the entry copied under
  the original filename, the entry of the file reference deleted.
\<close>

definition envelope :: "job \<Rightarrow> report \<Rightarrow> results \<Rightarrow> results" where
  "envelope j rep res =
     (let rep1 = AList.update ''Scan Metadata'' (Ref (metadata j)) rep
      in AList.delete (file_ref j)
           (AList.update (original_filename j) rep1 (AList.update (file_ref j) rep1 res)))"

text \<open>The five keys written by lines 191-197.\<close>

definition written_keys :: "string list" where
  "written_keys = [''Worker Node'', ''Scan Config'', ''Modules Enabled'', ''Scan Time'', ''Task ID'']"

text \<open>
  The number of sections of a configuration, other than \<open>main\<close>, whose \<open>ENABLED\<close> entry
  is \<open>True\<close>.
\<close>

definition enabled_sections :: "config \<Rightarrow> nat" where
  "enabled_sections cfg =
     length (filter (\<lambda>kv. fst kv \<noteq> ''main'' \<and> map_of (snd kv) ''ENABLED'' = Some (PBool True)) cfg)"

subsection \<open>Concrete inputs\<close>

definition cfg4 :: config where
  "cfg4 =
     [(''main'', [(''copyfilesto'', PBool False)]),
      (''ClamAV'', [(''ENABLED'', PBool True)]),
      (''Yara'', [(''ENABLED'', PBool True)]),
      (''ssdeep'', [(''ENABLED'', PBool False)]),
      (''TrID'', [(''ENABLED'', PBool False)])]"

definition engine_ok :: "string list \<Rightarrow> config \<Rightarrow> string list option \<Rightarrow> error + results" where
  "engine_ok files cfg ml = Inr (map (\<lambda>f. (f, [(''ClamAV'', Val (PStr ''clean''))])) files)"

definition env_ok :: env where
  "env_ok =
     \<lparr>hostname = ''worker1'',
      clock = (\<lambda>n. if n = 0 then ''2018-06-01T10:00:00'' else ''2018-06-01T10:00:09''),
      MS_CONFIG = cfg4,
      multiscan = engine_ok,
      store = (\<lambda>r h. Inr [''ElasticSearchStorage''])\<rparr>"

definition env_unpublished :: env where
  "env_unpublished = env_ok\<lparr>store := (\<lambda>r h. Inr [])\<rparr>"

definition env_no_result :: env where
  "env_no_result = env_ok\<lparr>multiscan := (\<lambda>files cfg ml. Inr [])\<rparr>"

definition job1 :: job where
  "job1 =
     \<lparr>file_ref = ''/tmp/3f2a'', original_filename = ''sample.exe'', task_id = PInt 7,
      file_hash = ''3f2a'', metadata = 0, config = None, module_list = None\<rparr>"

definition job_subset3 :: job where
  "job_subset3 = job1\<lparr>module_list := Some [''ClamAV'', ''Yara'', ''TrID'']\<rparr>"

definition job_subset0 :: job where
  "job_subset0 = job1\<lparr>module_list := Some []\<rparr>"

definition job_same_name :: job where
  "job_same_name = job1\<lparr>original_filename := ''/tmp/3f2a''\<rparr>"

definition world0 :: world where
  "world0 =
     \<lparr>heap = (\<lambda>a. [])(0 := [(''Submitter'', PStr ''alice''), (''Scan Time'', PStr ''unknown'')]),
      db = [], ticks = 0\<rparr>"

definition penv_enabled :: penv where
  "penv_enabled =
     \<lparr>es_storage_config = [(''metricbeat_rollover_days'', PInt 30)],
      ms_config_value = PDict [(''main'', PDict [])],
      open_storage = Inr [OtherStorage 0, ElasticSearchStorage 1],
      delete_index = (\<lambda>n prefix days. Inr (PBool True))\<rparr>"

definition penv_disabled :: penv where
  "penv_disabled =
     penv_enabled\<lparr>es_storage_config :=
       [(''metricbeat_enabled'', PBool False), (''metricbeat_rollover_days'', PInt 30)]\<rparr>"

definition penv_unset :: penv where
  "penv_unset = penv_enabled\<lparr>es_storage_config := []\<rparr>"

definition penv_zero :: penv where
  "penv_zero = penv_enabled\<lparr>es_storage_config := [(''metricbeat_rollover_days'', PInt 0)]\<rparr>"

definition rstate0 :: rstate where
  "rstate0 = \<lparr>logged = [], deleted = [], closed = 0\<rparr>"

section \<open>Properties of the scan task\<close>

subsection \<open>The steps of the task body\<close>

lemma set_scan_metadata_ref:
  "map_of res f = Some rep \<Longrightarrow> map_of rep ''Scan Metadata'' = Some (Ref a) \<Longrightarrow>
   set_scan_metadata f k v (res, h) = Inr (res, h(a := AList.update k v (h a)))"
  by (simp add: set_scan_metadata_def getitem_def)

lemma fill_metadata_Some:
  assumes "map_of res (file_ref j) = Some rep"
  shows "fill_metadata e j st sc te tm (res, h) =
    Inr (AList.update (file_ref j) (AList.update ''Scan Metadata'' (Ref (metadata j)) rep) res,
         h(metadata j := written e j st sc te tm (h (metadata j))))"
proof -
  let ?rep = "AList.update ''Scan Metadata'' (Ref (metadata j)) rep"
  let ?res = "AList.update (file_ref j) ?rep res"
  have a: "map_of ?res (file_ref j) = Some ?rep" by (simp add: update_conv')
  have b: "map_of ?rep ''Scan Metadata'' = Some (Ref (metadata j))" by (simp add: update_conv')
  show ?thesis
    using assms
    by (simp add: fill_metadata_def getitem_def set_scan_metadata_ref [OF a b] written_def)
qed

lemma fill_metadata_None:
  "map_of res (file_ref j) = None \<Longrightarrow>
   fill_metadata e j st sc te tm (res, h) = Inl (KeyError (file_ref j))"
  by (simp add: fill_metadata_def getitem_def)

lemma rekey_Some:
  "map_of res f = Some rep \<Longrightarrow> rekey f orig res = Inr (AList.delete f (AList.update orig rep res))"
  by (simp add: rekey_def getitem_def delitem_def update_conv')

lemma assemble_ok:
  assumes "multiscan e [file_ref j] (effective_config e j) (module_list j) = Inr res0"
    and "map_of res0 (file_ref j) = Some rep"
    and "scan_config (effective_config e j) (module_list j) = Inr (sc, te)"
  shows "assemble e j w =
     (Inr (envelope j rep res0),
      w\<lparr>ticks := ticks w + 1,
        heap := (heap w)(metadata j :=
           written e j (clock e (ticks w)) sc te (int (length (effective_config e j)) - 1)
             (heap w (metadata j)))\<rparr>)"
proof -
  let ?rep = "AList.update ''Scan Metadata'' (Ref (metadata j)) rep"
  have "map_of (AList.update (file_ref j) ?rep res0) (file_ref j) = Some ?rep"
    by (simp add: update_conv')
  then show ?thesis
    using assms
    by (simp add: assemble_def now_def fill_metadata_Some rekey_Some envelope_def Let_def)
qed

lemma assemble_missing:
  assumes "multiscan e [file_ref j] (effective_config e j) (module_list j) = Inr res0"
    and "map_of res0 (file_ref j) = None"
  shows "\<exists>exc. assemble e j w = (Inl exc, w\<lparr>ticks := ticks w + 1\<rparr>)"
  using assms
  by (simp add: assemble_def now_def fill_metadata_None Let_def split: sum.split prod.split)

lemma assemble_InrD:
  assumes "assemble e j w = (Inr res, w')"
  shows "\<exists>res0 rep sc te.
     multiscan e [file_ref j] (effective_config e j) (module_list j) = Inr res0 \<and>
     map_of res0 (file_ref j) = Some rep \<and>
     scan_config (effective_config e j) (module_list j) = Inr (sc, te)"
proof (cases "multiscan e [file_ref j] (effective_config e j) (module_list j)")
  case (Inl err)
  with assms show ?thesis by (simp add: assemble_def)
next
  case (Inr res0)
  show ?thesis
  proof (cases "scan_config (effective_config e j) (module_list j)")
    case (Inl err)
    with Inr assms show ?thesis by (simp add: assemble_def now_def Let_def)
  next
    case sc: (Inr p)
    obtain sc' te where p: "p = (sc', te)" by (cases p)
    show ?thesis
    proof (cases "map_of res0 (file_ref j)")
      case None
      from assemble_missing [OF Inr None, of w] assms show ?thesis by auto
    next
      case (Some rep)
      with Inr sc p show ?thesis by auto
    qed
  qed
qed

lemma assemble_db: "db (snd (assemble e j w)) = db w"
  by (simp add: assemble_def now_def Let_def split: sum.split prod.split)

lemma multiscanner_celery_db: "db (snd (multiscanner_celery e j w)) = db w"
  using assemble_db [of e j w]
  by (cases "assemble e j w") (auto simp: multiscanner_celery_def split: sum.split)

lemma final_status_append:
  "final_status (us @ [u]) (upd_task_id u) = Some (task_status u)"
proof -
  have "filter (\<lambda>x. upd_task_id x = upd_task_id u) (us @ [u]) =
        filter (\<lambda>x. upd_task_id x = upd_task_id u) us @ [u]" by simp
  then show ?thesis
    by (cases "filter (\<lambda>x. upd_task_id x = upd_task_id u) us") (simp_all add: final_status_def)
qed

lemma multiscanner_celery_InrD:
  assumes "multiscanner_celery e j w = (Inr res, w1)"
  shows "assemble e j w = (Inr res, w1) \<and> (\<exists>ids. store e res (heap w1) = Inr ids \<and> ids \<noteq> [])"
  using assms
  by (cases "assemble e j w")
     (auto simp: multiscanner_celery_def split: sum.splits if_splits)

lemma multiscanner_celery_world:
  assumes "assemble e j w = (r, w1)"
  shows "snd (multiscanner_celery e j w) = w1"
  using assms by (auto simp: multiscanner_celery_def split: sum.splits)

lemma map_of_written:
  "map_of (written e j st sc te tm d) =
     (map_of d)(''Worker Node'' \<mapsto> PStr (hostname e), ''Scan Config'' \<mapsto> PDict sc,
        ''Modules Enabled'' \<mapsto> PStr (modules_enabled te tm), ''Scan Time'' \<mapsto> PStr st,
        ''Task ID'' \<mapsto> task_id j)"
  by (simp add: written_def update_conv')

lemma map_of_envelope:
  "original_filename j \<noteq> file_ref j \<Longrightarrow>
   map_of (envelope j rep res0) (original_filename j) =
     Some (AList.update ''Scan Metadata'' (Ref (metadata j)) rep)"
  by (simp add: envelope_def Let_def delete_conv' update_conv')

lemma map_of_envelope_same:
  "original_filename j = file_ref j \<Longrightarrow> map_of (envelope j rep res0) (original_filename j) = None"
  by (simp add: envelope_def Let_def delete_conv')

subsection \<open>Evaluation of the concrete inputs\<close>

lemmas scan_defs = assemble_def multiscanner_celery_def run_task_def on_success_def on_failure_def
  now_def scan_config_def effective_config_def fill_metadata_def set_scan_metadata_def rekey_def
  getitem_def delitem_def subscript_slot_def modules_enabled_def str_int_def digits.simps
  digit_char_def update_conv' delete_conv'

lemmas ex_defs = env_ok_def env_unpublished_def env_no_result_def job1_def job_subset3_def
  job_subset0_def job_same_name_def world0_def cfg4_def engine_ok_def

lemma body_same_name:
  "multiscanner_celery env_ok job_same_name world0 =
     (Inr [], snd (multiscanner_celery env_ok job_same_name world0))"
  by (simp add: scan_defs ex_defs)

subsection \<open>A publish failure fails the job\<close>

text \<open>
  C1: when the task has assembled its envelope (so the scan engine succeeded) and the
  storage returns no backend id for it, the body raises \<open>ValueError\<close>, the failure
  callback writes \<open>Failed\<close>, and \<open>Failed\<close> is the job's recorded status.
\<close>

theorem publish_failure_is_Failed:
  assumes "assemble e j w = (Inr res, w1)"
    and "store e res (heap w1) = Inr []"
  shows "multiscanner_celery e j w = (Inl (ValueError ''Report failed to index''), w1) \<and>
         run_task e j w =
           (Failure (ValueError ''Report failed to index''),
            w1\<lparr>ticks := ticks w1 + 1,
               db := db w @ [\<lparr>upd_task_id = task_id j, task_status = ''Failed'',
                              timestamp = PStr (clock e (ticks w1))\<rparr>]\<rparr>) \<and>
         final_status (db (snd (run_task e j w))) (task_id j) = Some ''Failed''"
proof -
  have body: "multiscanner_celery e j w = (Inl (ValueError ''Report failed to index''), w1)"
    using assms by (simp add: multiscanner_celery_def)
  have dbw: "db w1 = db w"
    using assemble_db [of e j w] assms(1) by simp
  have run: "run_task e j w =
           (Failure (ValueError ''Report failed to index''),
            w1\<lparr>ticks := ticks w1 + 1,
               db := db w @ [\<lparr>upd_task_id = task_id j, task_status = ''Failed'',
                              timestamp = PStr (clock e (ticks w1))\<rparr>]\<rparr>)"
    by (simp add: run_task_def body on_failure_def now_def dbw)
  have "final_status (db (snd (run_task e j w))) (task_id j) = Some ''Failed''"
    using final_status_append [of "db w" "\<lparr>upd_task_id = task_id j, task_status = ''Failed'',
                              timestamp = PStr (clock e (ticks w1))\<rparr>"]
    by (simp add: run)
  with body run show ?thesis by simp
qed

theorem publish_failure_is_Failed_witness:
  "final_status (db (snd (run_task env_unpublished job1 world0))) (PInt 7) = Some ''Failed'' \<and>
   fst (run_task env_unpublished job1 world0) = Failure (ValueError ''Report failed to index'')"
proof -
  let ?sc = "[(''ClamAV'', PDict [(''ENABLED'', PBool True)]),
              (''Yara'', PDict [(''ENABLED'', PBool True)]),
              (''ssdeep'', PDict [(''ENABLED'', PBool False)]),
              (''TrID'', PDict [(''ENABLED'', PBool False)])]"
  let ?rep = "[(''ClamAV'', Val (PStr ''clean''))]"
  have sc: "scan_config (effective_config env_unpublished job1) (module_list job1) = Inr (?sc, 2)"
    by (simp add: scan_config_def effective_config_def env_unpublished_def env_ok_def job1_def
        cfg4_def getitem_def)
  have a: "assemble env_unpublished job1 world0 =
     (Inr (envelope job1 ?rep [(''/tmp/3f2a'', ?rep)]),
      world0\<lparr>ticks := ticks world0 + 1,
        heap := (heap world0)(metadata job1 :=
           written env_unpublished job1 (clock env_unpublished (ticks world0)) ?sc 2
             (int (length (effective_config env_unpublished job1)) - 1)
             (heap world0 (metadata job1)))\<rparr>)"
    by (rule assemble_ok [OF _ _ sc])
       (simp_all add: env_unpublished_def env_ok_def engine_ok_def job1_def)
  have s: "store env_unpublished r h = Inr []" for r h
    by (simp add: env_unpublished_def)
  note t = publish_failure_is_Failed [OF a s]
  have tid: "task_id job1 = PInt 7" by (simp add: job1_def)
  from t have "final_status (db (snd (run_task env_unpublished job1 world0))) (task_id job1) =
      Some ''Failed''"
    by blast
  moreover from t have "fst (run_task env_unpublished job1 world0) =
      Failure (ValueError ''Report failed to index'')"
    by simp
  ultimately show ?thesis by (simp only: tid simp_thms)
qed

subsection \<open>Re-keying under equal names\<close>

text \<open>
  C9: when the original filename equals the file reference and the body returns, the
  assignment and the deletion of lines 202-203 have removed the entry: the returned
  mapping has no entry under the original filename, and the lookup of the success
  callback raises \<open>KeyError\<close> before it writes anything.
\<close>

theorem rekey_same_name_drops_result:
  assumes "original_filename j = file_ref j"
    and "multiscanner_celery e j w = (Inr res, w1)"
  shows "map_of res (original_filename j) = None \<and>
         on_success res j w1 = (Inl (KeyError (original_filename j)), w1) \<and>
         db w1 = db w"
proof -
  from multiscanner_celery_InrD [OF assms(2)] have a: "assemble e j w = (Inr res, w1)" by blast
  from assemble_InrD [OF a] obtain res0 rep sc te where
    h: "multiscan e [file_ref j] (effective_config e j) (module_list j) = Inr res0"
       "map_of res0 (file_ref j) = Some rep"
       "scan_config (effective_config e j) (module_list j) = Inr (sc, te)"
    by blast
  from assemble_ok [OF h, of w] a have res: "res = envelope j rep res0" by simp
  have none: "map_of res (original_filename j) = None"
    by (simp add: res map_of_envelope_same [OF assms(1)])
  have cb: "on_success res j w1 = (Inl (KeyError (original_filename j)), w1)"
    by (simp add: on_success_def getitem_def none)
  have "db w1 = db w" using multiscanner_celery_db [of e j w] assms(2) by simp
  with none cb show ?thesis by simp
qed

theorem rekey_same_name_drops_result_witness:
  "original_filename job_same_name = file_ref job_same_name \<and>
   on_success [] job_same_name (snd (multiscanner_celery env_ok job_same_name world0)) =
     (Inl (KeyError ''/tmp/3f2a''), snd (multiscanner_celery env_ok job_same_name world0)) \<and>
   db (snd (multiscanner_celery env_ok job_same_name world0)) = []"
proof -
  have eq: "original_filename job_same_name = file_ref job_same_name"
    by (simp add: job_same_name_def job1_def)
  have nm: "original_filename job_same_name = ''/tmp/3f2a''"
    by (simp add: job_same_name_def job1_def)
  have db0: "db world0 = []" by (simp add: world0_def)
  note t = rekey_same_name_drops_result [OF eq body_same_name]
  from t have "on_success [] job_same_name (snd (multiscanner_celery env_ok job_same_name world0)) =
      (Inl (KeyError (original_filename job_same_name)),
       snd (multiscanner_celery env_ok job_same_name world0))" by blast
  moreover from t have "db (snd (multiscanner_celery env_ok job_same_name world0)) = db world0"
    by blast
  ultimately show ?thesis using eq by (simp add: nm db0)
qed

subsection \<open>The success callback\<close>

lemma on_success_envelope:
  assumes "assemble e j w = (Inr res, w1)" and "original_filename j \<noteq> file_ref j"
  shows "on_success res j w1 =
     (Inr (), w1\<lparr>db := db w @ [\<lparr>upd_task_id = task_id j, task_status = ''Complete'',
                                  timestamp = PStr (clock e (ticks w))\<rparr>]\<rparr>)"
proof -
  from assemble_InrD [OF assms(1)] obtain res0 rep sc te where
    h: "multiscan e [file_ref j] (effective_config e j) (module_list j) = Inr res0"
       "map_of res0 (file_ref j) = Some rep"
       "scan_config (effective_config e j) (module_list j) = Inr (sc, te)"
    by blast
  from assemble_ok [OF h, of w] assms(1)
  have res: "res = envelope j rep res0"
    and w1: "w1 = w\<lparr>ticks := ticks w + 1,
        heap := (heap w)(metadata j :=
           written e j (clock e (ticks w)) sc te (int (length (effective_config e j)) - 1)
             (heap w (metadata j)))\<rparr>"
    by simp_all
  show ?thesis
    by (simp add: on_success_def getitem_def res map_of_envelope [OF assms(2)] update_conv'
        subscript_slot_def w1 map_of_written)
qed

lemma complete_timestamp:
  assumes "multiscanner_celery e j w = (Inr res, w1)" and "original_filename j \<noteq> file_ref j"
  shows "run_task e j w =
     (Success res, w1\<lparr>db := db w @ [\<lparr>upd_task_id = task_id j, task_status = ''Complete'',
                                  timestamp = PStr (clock e (ticks w))\<rparr>]\<rparr>) \<and>
     ticks w1 = ticks w + 1"
proof -
  from multiscanner_celery_InrD [OF assms(1)] have a: "assemble e j w = (Inr res, w1)" by blast
  from assemble_InrD [OF a] obtain res0 rep sc te where
    h: "multiscan e [file_ref j] (effective_config e j) (module_list j) = Inr res0"
       "map_of res0 (file_ref j) = Some rep"
       "scan_config (effective_config e j) (module_list j) = Inr (sc, te)"
    by blast
  from assemble_ok [OF h, of w] a have "ticks w1 = ticks w + 1" by auto
  with on_success_envelope [OF a assms(2)] assms(1) show ?thesis
    by (simp add: run_task_def)
qed

subsection \<open>A missing result fails the job\<close>

text \<open>
  C7: when the scan engine returns a mapping without the submitted file reference (an
  empty mapping in particular), the body raises before it stores anything, the failure
  callback writes \<open>Failed\<close>, and \<open>Failed\<close> is the job's recorded status.
\<close>

theorem missing_result_is_Failed:
  assumes "multiscan e [file_ref j] (effective_config e j) (module_list j) = Inr res0"
    and "map_of res0 (file_ref j) = None"
  shows "(\<exists>exc. run_task e j w =
            (Failure exc,
             w\<lparr>ticks := ticks w + 2,
               db := db w @ [\<lparr>upd_task_id = task_id j, task_status = ''Failed'',
                              timestamp = PStr (clock e (ticks w + 1))\<rparr>]\<rparr>)) \<and>
         final_status (db (snd (run_task e j w))) (task_id j) = Some ''Failed''"
proof -
  from assemble_missing [OF assms, of w] obtain exc where
    a: "assemble e j w = (Inl exc, w\<lparr>ticks := ticks w + 1\<rparr>)" by blast
  have body: "multiscanner_celery e j w = (Inl exc, w\<lparr>ticks := ticks w + 1\<rparr>)"
    by (simp add: multiscanner_celery_def a)
  have run: "run_task e j w =
            (Failure exc,
             w\<lparr>ticks := ticks w + 2,
               db := db w @ [\<lparr>upd_task_id = task_id j, task_status = ''Failed'',
                              timestamp = PStr (clock e (ticks w + 1))\<rparr>]\<rparr>)"
    by (simp add: run_task_def body on_failure_def now_def)
  have "final_status (db (snd (run_task e j w))) (task_id j) = Some ''Failed''"
    using final_status_append [of "db w" "\<lparr>upd_task_id = task_id j, task_status = ''Failed'',
                              timestamp = PStr (clock e (ticks w + 1))\<rparr>"]
    by (simp add: run)
  with run show ?thesis by blast
qed

theorem missing_result_is_Failed_witness:
  "multiscan env_no_result [file_ref job1] (effective_config env_no_result job1) (module_list job1) = Inr [] \<and>
   final_status (db (snd (run_task env_no_result job1 world0))) (PInt 7) = Some ''Failed''"
proof -
  have m: "multiscan env_no_result [file_ref job1] (effective_config env_no_result job1)
             (module_list job1) = Inr []"
    by (simp add: env_no_result_def)
  have n: "map_of ([] :: results) (file_ref job1) = None" by simp
  have tid: "task_id job1 = PInt 7" by (simp add: job1_def)
  from missing_result_is_Failed [OF m n, of world0]
  have "final_status (db (snd (run_task env_no_result job1 world0))) (task_id job1) = Some ''Failed''"
    by blast
  with m show ?thesis by (simp only: tid simp_thms)
qed

subsection \<open>The recorded status history\<close>

lemma on_success_same_name:
  assumes "original_filename j = file_ref j"
    and "multiscanner_celery e j w = (Inr res, w1)"
  shows "on_success res j w1 = (Inl (KeyError (original_filename j)), w1)"
proof -
  from multiscanner_celery_InrD [OF assms(2)] have a: "assemble e j w = (Inr res, w1)" by blast
  from assemble_InrD [OF a] obtain res0 rep sc te where
    h: "multiscan e [file_ref j] (effective_config e j) (module_list j) = Inr res0"
       "map_of res0 (file_ref j) = Some rep"
       "scan_config (effective_config e j) (module_list j) = Inr (sc, te)"
    by blast
  from assemble_ok [OF h, of w] a have res: "res = envelope j rep res0" by simp
  show ?thesis
    by (simp add: on_success_def getitem_def res map_of_envelope_same [OF assms(1)])
qed

lemma on_failure_db:
  "db (on_failure e exc j w1) =
     db w1 @ [\<lparr>upd_task_id = task_id j, task_status = ''Failed'',
                timestamp = PStr (clock e (ticks w1))\<rparr>]"
  by (simp add: on_failure_def now_def)

text \<open>
  C2, as amended: the task body writes nothing to the status store, so no transition
  to a running status and no start time are recorded. One run records exactly one
  update, written by a callback after the body has ended: \<open>Complete\<close>, with the scan time
  that the body read at line 167, when the body returned and the success callback ran
  through; \<open>Failed\<close>, with the clock reading of the failure callback (the first reading
  after the body), when the body raised or the success callback raised. The update
  carries the job's id.
\<close>

theorem only_terminal_status_recorded:
  "db (snd (multiscanner_celery e j w)) = db w \<and>
   (case fst (run_task e j w) of
      Success res \<Rightarrow>
        db (snd (run_task e j w)) =
          db w @ [\<lparr>upd_task_id = task_id j, task_status = ''Complete'',
                    timestamp = PStr (clock e (ticks w))\<rparr>]
    | Failure exc \<Rightarrow>
        db (snd (run_task e j w)) =
          db w @ [\<lparr>upd_task_id = task_id j, task_status = ''Failed'',
                    timestamp = PStr (clock e (ticks (snd (multiscanner_celery e j w))))\<rparr>]
    | CallbackError exc \<Rightarrow>
        db (snd (run_task e j w)) =
          db w @ [\<lparr>upd_task_id = task_id j, task_status = ''Failed'',
                    timestamp = PStr (clock e (ticks (snd (multiscanner_celery e j w))))\<rparr>])"
proof -
  obtain r w1 where b: "multiscanner_celery e j w = (r, w1)" by (cases "multiscanner_celery e j w")
  have dbw: "db w1 = db w" using multiscanner_celery_db [of e j w] b by simp
  have "case fst (run_task e j w) of
      Success res \<Rightarrow>
        db (snd (run_task e j w)) =
          db w @ [\<lparr>upd_task_id = task_id j, task_status = ''Complete'',
                    timestamp = PStr (clock e (ticks w))\<rparr>]
    | Failure exc \<Rightarrow>
        db (snd (run_task e j w)) =
          db w @ [\<lparr>upd_task_id = task_id j, task_status = ''Failed'',
                    timestamp = PStr (clock e (ticks (snd (multiscanner_celery e j w))))\<rparr>]
    | CallbackError exc \<Rightarrow>
        db (snd (run_task e j w)) =
          db w @ [\<lparr>upd_task_id = task_id j, task_status = ''Failed'',
                    timestamp = PStr (clock e (ticks (snd (multiscanner_celery e j w))))\<rparr>]"
  proof (cases r)
    case (Inl exc)
    with b dbw show ?thesis by (simp add: run_task_def on_failure_db)
  next
    case (Inr res)
    show ?thesis
    proof (cases "original_filename j = file_ref j")
      case True
      from on_success_same_name [OF True] b Inr
      have "on_success res j w1 = (Inl (KeyError (original_filename j)), w1)" by simp
      with b Inr dbw show ?thesis by (simp add: run_task_def on_failure_db)
    next
      case False
      from complete_timestamp [OF _ False] b Inr
      have "run_task e j w =
         (Success res, w1\<lparr>db := db w @ [\<lparr>upd_task_id = task_id j, task_status = ''Complete'',
                                  timestamp = PStr (clock e (ticks w))\<rparr>]\<rparr>)"
        by simp
      then show ?thesis by simp
    qed
  qed
  with multiscanner_celery_db [of e j w] show ?thesis by simp
qed

theorem only_terminal_status_recorded_witness:
  "db (snd (multiscanner_celery env_ok job1 world0)) = [] \<and>
   db (snd (run_task env_ok job1 world0)) =
     [\<lparr>upd_task_id = PInt 7, task_status = ''Complete'',
       timestamp = PStr ''2018-06-01T10:00:00''\<rparr>]"
proof -
  have f: "fst (run_task env_ok job1 world0) =
     Success [(''sample.exe'', [(''ClamAV'', Val (PStr ''clean'')), (''Scan Metadata'', Ref 0)])]"
    by (simp add: scan_defs ex_defs)
  have d: "db world0 = []" by (simp add: world0_def)
  have t: "task_id job1 = PInt 7" by (simp add: job1_def)
  have c: "clock env_ok (ticks world0) = ''2018-06-01T10:00:00''"
    by (simp add: env_ok_def world0_def)
  from only_terminal_status_recorded [of env_ok job1 world0] show ?thesis
    by (simp add: f d t c)
qed

text \<open>
  The claim as stated fails on a plain successful run: the whole history written for
  the job is the single \<open>Complete\<close> update.
\<close>

theorem no_running_status_counterexample:
  "db (snd (run_task env_ok job1 world0)) =
     [\<lparr>upd_task_id = PInt 7, task_status = ''Complete'',
       timestamp = PStr ''2018-06-01T10:00:00''\<rparr>]"
  by (simp add: scan_defs ex_defs)

subsection \<open>The completion status under equal names\<close>

text \<open>
  C3: a job whose scan and publish both succeed is to be recorded \<open>Complete\<close> with the
  scan time of its envelope. For a job whose original filename equals its file
  reference the engine succeeds and lines 202-203 empty the mapping; whatever the
  storage then answers for it, the run is recorded \<open>Failed\<close> with the clock reading of
  the failure callback, and never \<open>Complete\<close>. When the storage reports a backend id the
  body returns, and it is the lookup of the success callback that raises.
\<close>

theorem complete_missing_for_same_name:
  "multiscan env_ok [file_ref job_same_name] (effective_config env_ok job_same_name)
     (module_list job_same_name) = Inr [(''/tmp/3f2a'', [(''ClamAV'', Val (PStr ''clean''))])] \<and>
   fst (multiscanner_celery env_ok job_same_name world0) = Inr [] \<and>
   fst (run_task env_ok job_same_name world0) = CallbackError (KeyError ''/tmp/3f2a'') \<and>
   (\<forall>st. db (snd (run_task (env_ok\<lparr>store := st\<rparr>) job_same_name world0)) =
      [\<lparr>upd_task_id = PInt 7, task_status = ''Failed'',
        timestamp = PStr ''2018-06-01T10:00:09''\<rparr>])"
  by (simp add: scan_defs ex_defs split: sum.split)

subsection \<open>The caller's metadata is written in place\<close>

text \<open>
  C10: when the engine's mapping has an entry for the file reference and the module
  count succeeds, the task installs the caller's dictionary in the envelope by
  reference and writes the five keys \<open>Worker Node\<close>, \<open>Scan Config\<close>, \<open>Modules Enabled\<close>,
  \<open>Scan Time\<close> and \<open>Task ID\<close> into that object: after the task (whatever the storage
  answers) the caller's dictionary holds the new values under the five keys, whatever
  it held there before; every other entry of it is as before; no other object has
  changed; and the entry of a returned envelope refers to that same object.
\<close>

theorem metadata_written_in_place:
  assumes "multiscan e [file_ref j] (effective_config e j) (module_list j) = Inr res0"
    and "map_of res0 (file_ref j) = Some rep"
    and "scan_config (effective_config e j) (module_list j) = Inr (sc, te)"
  shows "let h' = heap (snd (multiscanner_celery e j w));
             d = heap w (metadata j);
             d' = h' (metadata j);
             tm = int (length (effective_config e j)) - 1
         in d' = AList.update ''Task ID'' (task_id j)
                   (AList.update ''Scan Time'' (PStr (clock e (ticks w)))
                     (AList.update ''Modules Enabled'' (PStr (modules_enabled te tm))
                       (AList.update ''Scan Config'' (PDict sc)
                         (AList.update ''Worker Node'' (PStr (hostname e)) d)))) \<and>
            map_of d' ''Worker Node'' = Some (PStr (hostname e)) \<and>
            map_of d' ''Scan Config'' = Some (PDict sc) \<and>
            map_of d' ''Modules Enabled'' = Some (PStr (modules_enabled te tm)) \<and>
            map_of d' ''Scan Time'' = Some (PStr (clock e (ticks w))) \<and>
            map_of d' ''Task ID'' = Some (task_id j) \<and>
            (\<forall>k. k \<notin> set written_keys \<longrightarrow> map_of d' k = map_of d k) \<and>
            (\<forall>a. a \<noteq> metadata j \<longrightarrow> h' a = heap w a) \<and>
            (\<forall>res w1. multiscanner_celery e j w = (Inr res, w1) \<longrightarrow>
               original_filename j \<noteq> file_ref j \<longrightarrow>
               (\<exists>r. map_of res (original_filename j) = Some r \<and>
                    map_of r ''Scan Metadata'' = Some (Ref (metadata j))))"
proof -
  let ?tm = "int (length (effective_config e j)) - 1"
  let ?d' = "written e j (clock e (ticks w)) sc te ?tm (heap w (metadata j))"
  let ?w1 = "w\<lparr>ticks := ticks w + 1, heap := (heap w)(metadata j := ?d')\<rparr>"
  have a: "assemble e j w = (Inr (envelope j rep res0), ?w1)"
    by (rule assemble_ok [OF assms])
  have h: "heap (snd (multiscanner_celery e j w)) = (heap w)(metadata j := ?d')"
    by (simp add: multiscanner_celery_world [OF a])
  have env: "\<exists>r. map_of res (original_filename j) = Some r \<and>
                    map_of r ''Scan Metadata'' = Some (Ref (metadata j))"
    if "multiscanner_celery e j w = (Inr res, w1)" and "original_filename j \<noteq> file_ref j"
    for res w1
  proof -
    from multiscanner_celery_InrD [OF that(1)] a have "res = envelope j rep res0" by simp
    then show ?thesis by (simp add: map_of_envelope [OF that(2)] update_conv')
  qed
  have frame: "map_of ?d' k = map_of (heap w (metadata j)) k" if "k \<notin> set written_keys" for k
    using that by (simp add: map_of_written written_keys_def)
  show ?thesis
    unfolding Let_def h
    apply (intro conjI allI impI)
            apply (simp add: written_def)
           apply (simp add: map_of_written)
          apply (simp add: map_of_written)
         apply (simp add: map_of_written)
        apply (simp add: map_of_written)
       apply (simp add: map_of_written)
      apply (simp add: frame)
     apply simp
    apply (erule (1) env)
    done
qed

theorem metadata_written_in_place_witness:
  "heap (snd (multiscanner_celery env_ok job1 world0)) 0 =
     [(''Submitter'', PStr ''alice''),
      (''Scan Time'', PStr ''2018-06-01T10:00:00''),
      (''Worker Node'', PStr ''worker1''),
      (''Scan Config'',
         PDict [(''ClamAV'', PDict [(''ENABLED'', PBool True)]),
                (''Yara'', PDict [(''ENABLED'', PBool True)]),
                (''ssdeep'', PDict [(''ENABLED'', PBool False)]),
                (''TrID'', PDict [(''ENABLED'', PBool False)])]),
      (''Modules Enabled'', PStr ''2 / 4''),
      (''Task ID'', PInt 7)] \<and>
   map_of (heap (snd (multiscanner_celery env_ok job1 world0)) 0) ''Submitter'' =
     map_of (heap world0 0) ''Submitter''"
proof -
  let ?sc = "[(''ClamAV'', PDict [(''ENABLED'', PBool True)]),
              (''Yara'', PDict [(''ENABLED'', PBool True)]),
              (''ssdeep'', PDict [(''ENABLED'', PBool False)]),
              (''TrID'', PDict [(''ENABLED'', PBool False)])]"
  let ?rep = "[(''ClamAV'', Val (PStr ''clean''))]"
  have m: "multiscan env_ok [file_ref job1] (effective_config env_ok job1) (module_list job1) =
             Inr [(''/tmp/3f2a'', ?rep)]"
    by (simp add: env_ok_def engine_ok_def job1_def)
  have p: "map_of [(''/tmp/3f2a'', ?rep)] (file_ref job1) = Some ?rep"
    by (simp add: job1_def)
  have sc: "scan_config (effective_config env_ok job1) (module_list job1) = Inr (?sc, 2)"
    by (simp add: scan_config_def effective_config_def env_ok_def job1_def cfg4_def getitem_def)
  note t = metadata_written_in_place [OF m p sc, of world0, unfolded Let_def]
  have md: "metadata job1 = 0" by (simp add: job1_def)
  have k: "''Submitter'' \<notin> set written_keys" by (simp add: written_keys_def)
  from t have 1: "heap (snd (multiscanner_celery env_ok job1 world0)) (metadata job1) =
      AList.update ''Task ID'' (task_id job1)
                   (AList.update ''Scan Time'' (PStr (clock env_ok (ticks world0)))
                     (AList.update ''Modules Enabled'' (PStr (modules_enabled 2 (int (length (effective_config env_ok job1)) - 1)))
                       (AList.update ''Scan Config'' (PDict ?sc)
                         (AList.update ''Worker Node'' (PStr (hostname env_ok)) (heap world0 (metadata job1))))))"
    by blast
  from t k have 2: "map_of (heap (snd (multiscanner_celery env_ok job1 world0)) (metadata job1)) ''Submitter'' =
      map_of (heap world0 (metadata job1)) ''Submitter''"
    by blast
  have 3: "AList.update ''Task ID'' (task_id job1)
                   (AList.update ''Scan Time'' (PStr (clock env_ok (ticks world0)))
                     (AList.update ''Modules Enabled'' (PStr (modules_enabled 2 (int (length (effective_config env_ok job1)) - 1)))
                       (AList.update ''Scan Config'' (PDict ?sc)
                         (AList.update ''Worker Node'' (PStr (hostname env_ok)) (heap world0 (metadata job1)))))) =
     [(''Submitter'', PStr ''alice''),
      (''Scan Time'', PStr ''2018-06-01T10:00:00''),
      (''Worker Node'', PStr ''worker1''),
      (''Scan Config'', PDict ?sc),
      (''Modules Enabled'', PStr ''2 / 4''),
      (''Task ID'', PInt 7)]"
    by (simp add: job1_def env_ok_def world0_def effective_config_def cfg4_def modules_enabled_def
        str_int_def digits.simps digit_char_def)
  from 1 2 3 show ?thesis by (simp only: md simp_thms)
qed

subsection \<open>The ratio of enabled modules\<close>

lemma count_enabled_total:
  "count_enabled cfg keys sub tot = Inr (sc, te) \<Longrightarrow>
   te = tot + int (length (filter (\<lambda>k. k \<noteq> ''main'' \<and>
          (\<exists>sect. map_of cfg k = Some sect \<and> map_of sect ''ENABLED'' = Some (PBool True))) keys))"
proof (induction keys arbitrary: sub tot)
  case Nil
  then show ?case by simp
next
  case (Cons key keys)
  show ?case
  proof (cases "key = ''main''")
    case True
    with Cons.prems have "count_enabled cfg keys sub tot = Inr (sc, te)" by simp
    from Cons.IH [OF this] True show ?thesis by simp
  next
    case False
    with Cons.prems obtain sect v where
      s: "map_of cfg key = Some sect" and v: "map_of sect ''ENABLED'' = Some v"
      and r: "count_enabled cfg keys (AList.update key (PDict [(''ENABLED'', v)]) sub)
                (if v = PBool True then tot + 1 else tot) = Inr (sc, te)"
      by (auto simp: getitem_def split: option.splits)
    from Cons.IH [OF r] False s v show ?thesis by simp
  qed
qed

lemma enabled_keys_sections:
  assumes "distinct (map fst cfg)"
  shows "length (filter (\<lambda>k. k \<noteq> ''main'' \<and>
          (\<exists>sect. map_of cfg k = Some sect \<and> map_of sect ''ENABLED'' = Some (PBool True)))
            (map fst cfg)) = enabled_sections cfg"
proof -
  have "filter ((\<lambda>k. k \<noteq> ''main'' \<and>
          (\<exists>sect. map_of cfg k = Some sect \<and> map_of sect ''ENABLED'' = Some (PBool True))) \<circ> fst) cfg =
        filter (\<lambda>kv. fst kv \<noteq> ''main'' \<and> map_of (snd kv) ''ENABLED'' = Some (PBool True)) cfg"
  proof (rule filter_cong [OF refl])
    fix kv assume "kv \<in> set cfg"
    then have "map_of cfg (fst kv) = Some (snd kv)"
      using assms map_of_is_SomeI [of cfg "fst kv" "snd kv"] by simp
    then show "((\<lambda>k. k \<noteq> ''main'' \<and>
          (\<exists>sect. map_of cfg k = Some sect \<and> map_of sect ''ENABLED'' = Some (PBool True))) \<circ> fst) kv =
       (fst kv \<noteq> ''main'' \<and> map_of (snd kv) ''ENABLED'' = Some (PBool True))"
      by simp
  qed
  then show ?thesis
    by (simp add: enabled_sections_def filter_map)
qed

lemma scan_config_total:
  assumes "scan_config cfg ml = Inr (sc, te)" and "distinct (map fst cfg)"
  shows "te = (case ml of Some (m # ms) \<Rightarrow> int (length (m # ms))
                | _ \<Rightarrow> int (enabled_sections cfg))"
proof (cases "\<exists>m ms. ml = Some (m # ms)")
  case True
  with assms(1) show ?thesis by (auto simp: scan_config_def)
next
  case False
  then have c: "count_enabled cfg (map fst cfg) [] 0 = Inr (sc, te)"
    using assms(1) by (auto simp: scan_config_def split: option.splits list.splits)
  from count_enabled_total [OF c] enabled_keys_sections [OF assms(2)] False
  show ?thesis by (auto split: option.splits list.splits)
qed

text \<open>
  C4, as amended: after a successful scan the \<open>Modules Enabled\<close> entry is \<open>E / T\<close>, where
  \<open>T\<close> is the number of configuration entries minus one, and \<open>E\<close> is the length of the
  module subset when a non-empty one was supplied, and otherwise (no subset, or an
  empty one) the number of entries other than \<open>main\<close> whose \<open>ENABLED\<close> is \<open>True\<close>. The
  configuration is a dictionary: its keys are distinct.
\<close>

theorem modules_enabled_ratio:
  assumes "multiscanner_celery e j w = (Inr res, w1)"
    and "distinct (map fst (effective_config e j))"
  shows "map_of (heap w1 (metadata j)) ''Modules Enabled'' =
           Some (PStr (str_int (case module_list j of
                                  Some (m # ms) \<Rightarrow> int (length (m # ms))
                                | _ \<Rightarrow> int (enabled_sections (effective_config e j)))
                       @ '' / '' @
                       str_int (int (length (effective_config e j)) - 1)))"
proof -
  from multiscanner_celery_InrD [OF assms(1)] have a: "assemble e j w = (Inr res, w1)" by blast
  from assemble_InrD [OF a] obtain res0 rep sc te where
    h: "multiscan e [file_ref j] (effective_config e j) (module_list j) = Inr res0"
       "map_of res0 (file_ref j) = Some rep"
       "scan_config (effective_config e j) (module_list j) = Inr (sc, te)"
    by blast
  from assemble_ok [OF h, of w] a
  have w1: "heap w1 (metadata j) =
      written e j (clock e (ticks w)) sc te (int (length (effective_config e j)) - 1)
        (heap w (metadata j))"
    by auto
  from scan_config_total [OF h(3) assms(2)]
  show ?thesis by (simp add: w1 map_of_written modules_enabled_def)
qed

text \<open>
  The two examples of the claim: four modules and \<open>main\<close> with two enabled give
  \<open>2 / 4\<close>; a supplied subset of three gives \<open>3 / 4\<close>.
\<close>

lemma body_job1:
  "multiscanner_celery env_ok job1 world0 =
     (Inr [(''sample.exe'', [(''ClamAV'', Val (PStr ''clean'')), (''Scan Metadata'', Ref 0)])],
      snd (multiscanner_celery env_ok job1 world0))"
  by (simp add: scan_defs ex_defs)

lemma body_job_subset3:
  "multiscanner_celery env_ok job_subset3 world0 =
     (Inr [(''sample.exe'', [(''ClamAV'', Val (PStr ''clean'')), (''Scan Metadata'', Ref 0)])],
      snd (multiscanner_celery env_ok job_subset3 world0))"
  by (simp add: scan_defs ex_defs)

theorem modules_enabled_ratio_witness:
  "map_of (heap (snd (multiscanner_celery env_ok job1 world0)) 0) ''Modules Enabled'' =
     Some (PStr ''2 / 4'') \<and>
   map_of (heap (snd (multiscanner_celery env_ok job_subset3 world0)) 0) ''Modules Enabled'' =
     Some (PStr ''3 / 4'')"
proof -
  have d1: "distinct (map fst (effective_config env_ok job1))"
    by (simp add: effective_config_def env_ok_def job1_def cfg4_def)
  have d3: "distinct (map fst (effective_config env_ok job_subset3))"
    by (simp add: effective_config_def env_ok_def job_subset3_def job1_def cfg4_def)
  have e1: "str_int (case module_list job1 of
                                  Some (m # ms) \<Rightarrow> int (length (m # ms))
                                | _ \<Rightarrow> int (enabled_sections (effective_config env_ok job1)))
                       @ '' / '' @
                       str_int (int (length (effective_config env_ok job1)) - 1) = ''2 / 4''"
    by (simp add: effective_config_def env_ok_def job1_def cfg4_def enabled_sections_def
        str_int_def digits.simps digit_char_def)
  have e3: "str_int (case module_list job_subset3 of
                                  Some (m # ms) \<Rightarrow> int (length (m # ms))
                                | _ \<Rightarrow> int (enabled_sections (effective_config env_ok job_subset3)))
                       @ '' / '' @
                       str_int (int (length (effective_config env_ok job_subset3)) - 1) = ''3 / 4''"
    by (simp add: effective_config_def env_ok_def job_subset3_def job1_def cfg4_def
        str_int_def digits.simps digit_char_def)
  have m1: "metadata job1 = 0" by (simp add: job1_def)
  have m3: "metadata job_subset3 = 0" by (simp add: job_subset3_def job1_def)
  from modules_enabled_ratio [OF body_job1 d1] modules_enabled_ratio [OF body_job_subset3 d3]
  show ?thesis by (simp only: e1 e3 m1 m3 simp_thms)
qed

text \<open>
  The claim as stated fails for a supplied subset that is empty: \<open>E\<close> is then counted
  from the configuration and is not the length of the subset.
\<close>

theorem empty_subset_counterexample:
  "module_list job_subset0 = Some [] \<and>
   fst (multiscanner_celery env_ok job_subset0 world0) =
     Inr [(''sample.exe'', [(''ClamAV'', Val (PStr ''clean'')), (''Scan Metadata'', Ref 0)])] \<and>
   map_of (heap (snd (multiscanner_celery env_ok job_subset0 world0)) 0) ''Modules Enabled'' =
     Some (PStr ''2 / 4'') \<and>
   modules_enabled (int (length ([] :: string list))) (int (length cfg4) - 1) = ''0 / 4''"
  by (simp add: scan_defs ex_defs)

section \<open>Properties of the periodic tasks\<close>

lemmas periodic_defs = metricbeat_rollover_celery_def rollover_try_def call_metricbeat_rollover_def
  bind_days_def setup_periodic_tasks_def dict_get_def low_tasks_def Let_def

lemmas pex_defs = penv_enabled_def penv_disabled_def penv_unset_def penv_zero_def rstate0_def


lemma cleanup_deleted:
  "\<exists>ns. deleted (snd (cleanup e d hs s)) = deleted s @ map (\<lambda>n. (n, ''metricbeat'', d)) ns"
proof (induction e d hs s rule: cleanup.induct)
  case (1 e days s)
  show ?case by simp
next
  case (2 e days n hs s)
  then show ?case by simp
next
  case (3 e days n hs s)
  show ?case
  proof (cases "delete_index e n ''metricbeat'' days")
    case (Inl err)
    then show ?thesis by (intro exI [of _ "[n]"]) (simp add: Let_def)
  next
    case (Inr ret)
    from 3 [OF refl Inr] obtain ns where
      "deleted (snd (cleanup e days hs
         (s\<lparr>deleted := deleted s @ [(n, ''metricbeat'', days)],
            logged := logged s @
                  [if ret = PBool False then (Warning, Text ''Metricbeat Roller failed'')
                   else (Info, Format ''Metricbeat indices older than {} days deleted'' [days])]\<rparr>))) =
       (deleted s @ [(n, ''metricbeat'', days)]) @ map (\<lambda>n. (n, ''metricbeat'', days)) ns"
      by (auto simp: Let_def)
    then have "deleted (snd (cleanup e days (ElasticSearchStorage n # hs) s)) =
       deleted s @ map (\<lambda>n. (n, ''metricbeat'', days)) (n # ns)"
      using Inr by (simp add: Let_def)
    then show ?thesis by blast
  qed
qed

lemma cleanup_closed: "closed (snd (cleanup e d hs s)) = closed s"
  by (induction e d hs s rule: cleanup.induct) (auto simp: Let_def split: sum.splits)

lemma rollover_unusable:
  assumes "open_storage e = Inr loaded"
    and "truthy (dict_get (es_storage_config e) ''metricbeat_enabled'' (PBool True))"
    and "\<not> truthy (if truthy days then days
                     else dict_get (es_storage_config e) ''metricbeat_rollover_days'' (PInt 7))"
  shows "metricbeat_rollover_celery e days s =
     (Inr (),
      s\<lparr>logged := logged s @
           [(Warning, Exc (NameError ''name 'days' is not defined, check storage.ini for 'metricbeat_rollover_days' setting''))],
        closed := closed s + 1\<rparr>)"
  using assms
  by (auto simp: metricbeat_rollover_celery_def rollover_try_def Let_def split: if_splits)

lemma rollover_usable:
  assumes "open_storage e = Inr loaded"
    and "truthy (dict_get (es_storage_config e) ''metricbeat_enabled'' (PBool True))"
    and "truthy (if truthy days then days
                 else dict_get (es_storage_config e) ''metricbeat_rollover_days'' (PInt 7))"
  shows "rollover_try e days s =
     cleanup e (if truthy days then days
                else dict_get (es_storage_config e) ''metricbeat_rollover_days'' (PInt 7)) loaded s"
  using assms
  by (auto simp: rollover_try_def Let_def split: if_splits)

lemma rollover_returns:
  assumes "open_storage e = Inr loaded"
  shows "fst (metricbeat_rollover_celery e days s) = Inr () \<and>
         closed (snd (metricbeat_rollover_celery e days s)) = closed (snd (rollover_try e days s)) + 1 \<and>
         deleted (snd (metricbeat_rollover_celery e days s)) = deleted (snd (rollover_try e days s))"
  using assms
  by (cases "rollover_try e days s")
     (auto simp: metricbeat_rollover_celery_def split: sum.splits)

subsection \<open>The retention days of the rollover\<close>

text \<open>
  C5, as amended: when the body of the rollover action runs with the feature enabled
  and the storage handler open, the retention days are the action's \<open>days\<close> argument
  when that is truthy; only a falsy argument is replaced by the configured
  \<open>metricbeat_rollover_days\<close>, read at that moment, with the fallback 7 when the setting
  is unset. Every cleanup call uses that value. When the value is still falsy (the
  setting is present and falsy), the action raises \<open>NameError\<close>, which is caught and
  logged as a warning: no cleanup runs, the handler is closed, and the action returns
  normally, as it does in every case.
\<close>

theorem rollover_days_resolution:
  assumes "open_storage e = Inr loaded"
    and "truthy (dict_get (es_storage_config e) ''metricbeat_enabled'' (PBool True))"
  shows "let days1 = (if truthy days then days
                      else dict_get (es_storage_config e) ''metricbeat_rollover_days'' (PInt 7));
             r = metricbeat_rollover_celery e days s
         in fst r = Inr () \<and>
            closed (snd r) = closed s + 1 \<and>
            (if truthy days1
             then \<exists>ns. deleted (snd r) = deleted s @ map (\<lambda>n. (n, ''metricbeat'', days1)) ns
             else snd r =
               s\<lparr>logged := logged s @
                    [(Warning, Exc (NameError ''name 'days' is not defined, check storage.ini for 'metricbeat_rollover_days' setting''))],
                 closed := closed s + 1\<rparr>) \<and>
            (if truthy days then days1 = days
             else case map_of (es_storage_config e) ''metricbeat_rollover_days'' of
                    None \<Rightarrow> days1 = PInt 7
                  | Some v \<Rightarrow> days1 = v)"
proof -
  let ?d = "if truthy days then days
            else dict_get (es_storage_config e) ''metricbeat_rollover_days'' (PInt 7)"
  let ?r = "metricbeat_rollover_celery e days s"
  note ret = rollover_returns [OF assms(1), of days s]
  have a: "fst ?r = Inr ()" using ret by blast
  have b: "closed (snd ?r) = closed s + 1"
  proof (cases "truthy ?d")
    case True
    from rollover_usable [OF assms True, of s] ret show ?thesis
      by (simp add: cleanup_closed)
  next
    case False
    from rollover_unusable [OF assms False, of s] show ?thesis by simp
  qed
  have c: "if truthy ?d
             then \<exists>ns. deleted (snd ?r) = deleted s @ map (\<lambda>n. (n, ''metricbeat'', ?d)) ns
             else snd ?r =
               s\<lparr>logged := logged s @
                    [(Warning, Exc (NameError ''name 'days' is not defined, check storage.ini for 'metricbeat_rollover_days' setting''))],
                 closed := closed s + 1\<rparr>"
  proof (cases "truthy ?d")
    case True
    have "deleted (snd ?r) = deleted (snd (cleanup e ?d loaded s))"
      using rollover_usable [OF assms True, of s] ret by simp
    with cleanup_deleted [of e ?d loaded s] True show ?thesis by simp
  next
    case False
    from rollover_unusable [OF assms False, of s] False show ?thesis by simp
  qed
  have d: "if truthy days then ?d = days
             else case map_of (es_storage_config e) ''metricbeat_rollover_days'' of
                    None \<Rightarrow> ?d = PInt 7
                  | Some v \<Rightarrow> ?d = v"
    by (simp add: dict_get_def split: option.split)
  from a b c d show ?thesis unfolding Let_def by blast
qed

theorem rollover_days_resolution_witness:
  "metricbeat_rollover_celery penv_zero PNone rstate0 =
     (Inr (),
      \<lparr>logged = [(Warning, Exc (NameError ''name 'days' is not defined, check storage.ini for 'metricbeat_rollover_days' setting''))],
       deleted = [], closed = 1\<rparr>) \<and>
   deleted (snd (metricbeat_rollover_celery penv_unset PNone rstate0)) =
     [(1, ''metricbeat'', PInt 7)]"
proof -
  have o: "open_storage penv_zero = Inr [OtherStorage 0, ElasticSearchStorage 1]"
    by (simp add: pex_defs)
  have en: "truthy (dict_get (es_storage_config penv_zero) ''metricbeat_enabled'' (PBool True))"
    by (simp add: pex_defs dict_get_def)
  have d: "(if truthy PNone then PNone
            else dict_get (es_storage_config penv_zero) ''metricbeat_rollover_days'' (PInt 7)) = PInt 0"
    by (simp add: pex_defs dict_get_def)
  note t = rollover_days_resolution [OF o en, of PNone rstate0, unfolded Let_def d]
  from t have f: "fst (metricbeat_rollover_celery penv_zero PNone rstate0) = Inr ()" by blast
  from t have s: "snd (metricbeat_rollover_celery penv_zero PNone rstate0) =
      rstate0\<lparr>logged := logged rstate0 @
           [(Warning, Exc (NameError ''name 'days' is not defined, check storage.ini for 'metricbeat_rollover_days' setting''))],
        closed := closed rstate0 + 1\<rparr>"
    by simp
  have 1: "metricbeat_rollover_celery penv_zero PNone rstate0 =
     (Inr (),
      \<lparr>logged = [(Warning, Exc (NameError ''name 'days' is not defined, check storage.ini for 'metricbeat_rollover_days' setting''))],
       deleted = [], closed = 1\<rparr>)"
    using f s by (simp add: prod_eq_iff rstate0_def)
  have 2: "deleted (snd (metricbeat_rollover_celery penv_unset PNone rstate0)) =
     [(1, ''metricbeat'', PInt 7)]"
    by (simp add: periodic_defs pex_defs)
  from 1 2 show ?thesis by simp
qed

text \<open>
  The claim as stated fails twice. Called with a truthy argument the action uses the
  argument and not the configured value; and the entry that the schedule registers
  cannot be fired at all, so on a scheduled occurrence nothing is resolved or logged.
\<close>

theorem rollover_days_counterexample:
  "map_of (es_storage_config penv_enabled) ''metricbeat_rollover_days'' = Some (PInt 30) \<and>
   metricbeat_rollover_celery penv_enabled (PInt 5) rstate0 =
     (Inr (),
      \<lparr>logged = [(Info, Format ''Metricbeat indices older than {} days deleted'' [PInt 5])],
       deleted = [(1, ''metricbeat'', PInt 5)], closed = 1\<rparr>) \<and>
   call_metricbeat_rollover penv_enabled
       (args (setup_periodic_tasks penv_enabled ! 1)) (kwargs (setup_periodic_tasks penv_enabled ! 1))
       rstate0 =
     (Inl (TypeError ''got an unexpected keyword argument config''), rstate0)"
  by (simp add: periodic_defs pex_defs)

subsection \<open>The rollover when the feature is disabled\<close>

text \<open>
  C6: when \<open>metricbeat_enabled\<close> is false, \<open>setup_periodic_tasks\<close> registers the
  correlation task only, and the rollover action, however it is invoked, calls
  \<open>delete_index\<close> on no storage: it opens the storage handler, logs at debug level,
  closes the handler and returns.
\<close>

theorem rollover_disabled_no_work:
  assumes "\<not> truthy (dict_get (es_storage_config e) ''metricbeat_enabled'' (PBool True))"
  shows "map task (setup_periodic_tasks e) = [SsdeepCompare] \<and>
         deleted (snd (metricbeat_rollover_celery e days s)) = deleted s \<and>
         deleted (snd (call_metricbeat_rollover e positional keywords s)) = deleted s \<and>
         (case open_storage e of
            Inr loaded \<Rightarrow>
              metricbeat_rollover_celery e days s =
                (Inr (),
                 s\<lparr>logged := logged s @
                      [(Debug, Text ''Metricbeat logging not enbaled, exiting...'')],
                   closed := closed s + 1\<rparr>)
          | Inl err \<Rightarrow>
              metricbeat_rollover_celery e days s =
                (Inl (UnboundLocalError ''storage_handler''),
                 s\<lparr>logged := logged s @ [(Warning, Exc err)]\<rparr>))"
proof -
  have 1: "map task (setup_periodic_tasks e) = [SsdeepCompare]"
    using assms by (simp add: setup_periodic_tasks_def)
  have 2: "deleted (snd (metricbeat_rollover_celery e d s)) = deleted s" for d
    using assms
    by (simp add: metricbeat_rollover_celery_def rollover_try_def split: sum.split)
  have 3: "deleted (snd (call_metricbeat_rollover e positional keywords s)) = deleted s"
    by (simp add: call_metricbeat_rollover_def 2 split: sum.split)
  have 4: "case open_storage e of
            Inr loaded \<Rightarrow>
              metricbeat_rollover_celery e days s =
                (Inr (),
                 s\<lparr>logged := logged s @
                      [(Debug, Text ''Metricbeat logging not enbaled, exiting...'')],
                   closed := closed s + 1\<rparr>)
          | Inl err \<Rightarrow>
              metricbeat_rollover_celery e days s =
                (Inl (UnboundLocalError ''storage_handler''),
                 s\<lparr>logged := logged s @ [(Warning, Exc err)]\<rparr>)"
    using assms
    by (simp add: metricbeat_rollover_celery_def rollover_try_def split: sum.split)
  from 1 2 3 4 show ?thesis by blast
qed

theorem rollover_disabled_no_work_witness:
  "map task (setup_periodic_tasks penv_disabled) = [SsdeepCompare] \<and>
   metricbeat_rollover_celery penv_disabled (PInt 30) rstate0 =
     (Inr (),
      \<lparr>logged = [(Debug, Text ''Metricbeat logging not enbaled, exiting...'')],
       deleted = [], closed = 1\<rparr>)"
proof -
  have off: "\<not> truthy (dict_get (es_storage_config penv_disabled) ''metricbeat_enabled'' (PBool True))"
    by (simp add: pex_defs dict_get_def)
  have o: "open_storage penv_disabled = Inr [OtherStorage 0, ElasticSearchStorage 1]"
    by (simp add: pex_defs)
  note t = rollover_disabled_no_work [OF off, of "PInt 30" rstate0 "[]" "[]", unfolded o sum.case]
  from t have 1: "map task (setup_periodic_tasks penv_disabled) = [SsdeepCompare]" by blast
  from t have 2: "metricbeat_rollover_celery penv_disabled (PInt 30) rstate0 =
                (Inr (),
                 rstate0\<lparr>logged := logged rstate0 @
                      [(Debug, Text ''Metricbeat logging not enbaled, exiting...'')],
                   closed := closed rstate0 + 1\<rparr>)" by blast
  from 1 2 show ?thesis by (simp add: rstate0_def)
qed

subsection \<open>Firing the registered rollover entry\<close>

text \<open>
  C8: the entry that \<open>setup_periodic_tasks\<close> registers for the rollover carries two
  positional arguments (the configured rollover days, or \<open>None\<close>, and 7) and the keyword
  argument \<open>config\<close>; the task function takes the single parameter \<open>days\<close>. Calling the
  function with the entry's arguments raises \<open>TypeError\<close> before the body starts: nothing
  is logged, cleaned up or closed.
\<close>

theorem scheduled_rollover_raises_TypeError:
  "\<forall>en \<in> set (setup_periodic_tasks e).
     task en = MetricbeatRollover \<longrightarrow>
       args en = [dict_get (es_storage_config e) ''metricbeat_rollover_days'' PNone, PInt 7] \<and>
       kwargs en = [(''config'', ms_config_value e)] \<and>
       bind_days [days] [] = Inr days \<and>
       (\<exists>msg. call_metricbeat_rollover e (args en) (kwargs en) s = (Inl (TypeError msg), s))"
  by (simp add: setup_periodic_tasks_def call_metricbeat_rollover_def bind_days_def)

theorem scheduled_rollover_raises_TypeError_witness:
  "task (setup_periodic_tasks penv_enabled ! 1) = MetricbeatRollover \<and>
   args (setup_periodic_tasks penv_enabled ! 1) = [PInt 30, PInt 7] \<and>
   (\<exists>msg. call_metricbeat_rollover penv_enabled [PInt 30, PInt 7]
            [(''config'', PDict [(''main'', PDict [])])] rstate0 = (Inl (TypeError msg), rstate0))"
proof -
  let ?en = "setup_periodic_tasks penv_enabled ! 1"
  have m: "?en \<in> set (setup_periodic_tasks penv_enabled)"
    by (simp add: setup_periodic_tasks_def pex_defs dict_get_def)
  have t: "task ?en = MetricbeatRollover"
    by (simp add: setup_periodic_tasks_def pex_defs dict_get_def)
  have d: "dict_get (es_storage_config penv_enabled) ''metricbeat_rollover_days'' PNone = PInt 30"
    by (simp add: pex_defs dict_get_def)
  have c: "ms_config_value penv_enabled = PDict [(''main'', PDict [])]"
    by (simp add: pex_defs)
  note th = scheduled_rollover_raises_TypeError [of penv_enabled "PInt 30" rstate0, rule_format,
      OF m t, unfolded d c]
  from th have a: "args ?en = [PInt 30, PInt 7]" by blast
  from th have k: "kwargs ?en = [(''config'', PDict [(''main'', PDict [])])]" by blast
  from th have r: "\<exists>msg. call_metricbeat_rollover penv_enabled (args ?en) (kwargs ?en) rstate0 =
              (Inl (TypeError msg), rstate0)" by blast
  from r have "\<exists>msg. call_metricbeat_rollover penv_enabled [PInt 30, PInt 7]
            [(''config'', PDict [(''main'', PDict [])])] rstate0 = (Inl (TypeError msg), rstate0)"
    by (simp only: a k)
  with t a show ?thesis by blast
qed

end
